theory Spec2Isabelle
  imports Complex_Main "HOL-Library.Word"
begin

section \<open>Arrays\<close>

text \<open>
  A numpy array is its shape together with its elements in row-major (C) order.
  Every array that numpy builds holds as many elements as its shape says
  (\<open>wf_ndarray\<close>). Floating-point elements are modelled as real numbers: the
  finite values, with exact arithmetic. Rounding, infinities and NaN are outside
  this model.
\<close>

record 'a ndarray =
  shape :: "nat list"
  data :: "'a list"

definition wf_ndarray :: "'a ndarray \<Rightarrow> bool" where
  "wf_ndarray a = (length (data a) = prod_list (shape a))"

text \<open>Row-major position of a multi-index, and the element read there.\<close>

definition flat_index :: "nat list \<Rightarrow> nat list \<Rightarrow> nat" where
  "flat_index sh ix = foldl (\<lambda>acc (s, i). acc * s + i) 0 (zip sh ix)"

definition elem_at :: "'a ndarray \<Rightarrow> nat list \<Rightarrow> 'a" where
  "elem_at a ix = data a ! flat_index (shape a) ix"

datatype 'e py_error = AxisError | ValueError | UnboundLocalError | Upstream 'e

text \<open>
  The lanes of an array along axis \<open>k\<close>, in the row-major order of the remaining
  axes: lane \<open>(b, i)\<close> holds the elements at positions \<open>(b * n + j) * inner + i\<close>
  for \<open>j < n\<close>, where \<open>n\<close> is the length of axis \<open>k\<close>.
\<close>

definition lanes :: "nat \<Rightarrow> nat list \<Rightarrow> 'a list \<Rightarrow> 'a list list" where
  "lanes k sh xs =
     (let n = sh ! k;
          inner = prod_list (drop (Suc k) sh);
          outer = prod_list (take k sh)
      in concat (map (\<lambda>b. map (\<lambda>i. map (\<lambda>j. xs ! ((b * n + j) * inner + i)) [0..<n])
                              [0..<inner])
                     [0..<outer]))"

text \<open>
  \<^verbatim>\<open>a.mean(axis=k)\<close> and \<^verbatim>\<open>a.sum(axis=k)\<close>: axis \<open>k\<close> must exist,
  and it disappears from the shape. The mean is the sum of the lane divided by its
  length. (Over an axis of length 0 numpy gives NaN; here the quotient is 0.)
\<close>

definition reduce_axis ::
  "('a list \<Rightarrow> 'b) \<Rightarrow> nat \<Rightarrow> 'a ndarray \<Rightarrow> 'e py_error + 'b ndarray" where
  "reduce_axis f k a =
     (if k < length (shape a)
      then Inr \<lparr>shape = take k (shape a) @ drop (Suc k) (shape a),
                data = map f (lanes k (shape a) (data a))\<rparr>
      else Inl AxisError)"

definition mean_axis :: "nat \<Rightarrow> real ndarray \<Rightarrow> 'e py_error + real ndarray" where
  "mean_axis k a = reduce_axis (\<lambda>l. sum_list l / real (length l)) k a"

text \<open>
  \<^verbatim>\<open>a[mask] = v\<close> with a boolean mask of the shape of \<open>a\<close>: the mask is
  computed first, then every masked element is overwritten.
\<close>

definition put_mask :: "bool list \<Rightarrow> 'a \<Rightarrow> 'a list \<Rightarrow> 'a list" where
  "put_mask m v xs = map (\<lambda>(b, x). if b then v else x) (zip m xs)"

definition assign_where :: "('b \<Rightarrow> bool) \<Rightarrow> 'b ndarray \<Rightarrow> 'a \<Rightarrow> 'a ndarray \<Rightarrow> 'a ndarray" where
  "assign_where p src v a = a\<lparr>data := put_mask (map p (data src)) v (data a)\<rparr>"

text \<open>
  \<^verbatim>\<open>astype(np.int16)\<close> on a float array truncates towards zero. Values
  beyond 16 bits are written here as wrapping around; the functions below only ever
  convert 0 and 1.
\<close>

definition trunc_real :: "real \<Rightarrow> int" where
  "trunc_real x = (if 0 \<le> x then \<lfloor>x\<rfloor> else \<lceil>x\<rceil>)"

definition astype_int16 :: "real ndarray \<Rightarrow> 16 word ndarray" where
  "astype_int16 a = \<lparr>shape = shape a, data = map (\<lambda>x. word_of_int (trunc_real x)) (data a)\<rparr>"

section \<open>Fusion\<close>

datatype fused = Probabilities "real ndarray" | Labels "16 word ndarray"

text \<open>
  \<^verbatim>\<open>
  def mean_fusion(threshold, img, probs=True):
      probs_mean = img.mean(axis=4)
      if not probs:
          probs_mean[probs_mean >= threshold] = 1
          probs_mean[probs_mean < threshold] = 0
          probs_mean = probs_mean.astype(np.int16)
      return probs_mean
  \<close>
\<close>

definition mean_fusion :: "real \<Rightarrow> real ndarray \<Rightarrow> bool \<Rightarrow> 'e py_error + fused" where
  "mean_fusion threshold img probs =
     (case mean_axis 4 img of
        Inl e \<Rightarrow> Inl e
      | Inr probs_mean \<Rightarrow>
          if \<not> probs then
            (let probs_mean1 = assign_where (\<lambda>x. x \<ge> threshold) probs_mean 1 probs_mean;
                 probs_mean2 = assign_where (\<lambda>x. x < threshold) probs_mean1 0 probs_mean1
             in Inr (Labels (astype_int16 probs_mean2)))
          else Inr (Probabilities probs_mean))"

text \<open>
  \<^verbatim>\<open>
  def majority_fusion(threshold, img, probs=None):
      img[img >= threshold] = 1
      img[img < threshold] = 0
      probs_combined = img.astype(np.int16)
      probs_sum = probs_combined.sum(axis=4)
      probs_result = np.zeros(probs_sum.shape)
      probs_result[probs_sum >= 2] = 1   #majority is at least 2 of 3
      probs_result[probs_sum < 2] = 0
      return probs_result.astype(np.int16)
  \<close>
  The first two statements write into the caller's array, so the function returns
  the array as it is left together with the result. The sum of 16-bit integers is
  taken by numpy in the platform integer, which three summands cannot overflow: it
  is an \<open>int\<close> here.
\<close>

definition zeros :: "nat list \<Rightarrow> real ndarray" where
  "zeros sh = \<lparr>shape = sh, data = replicate (prod_list sh) 0\<rparr>"

definition sum_axis :: "nat \<Rightarrow> 16 word ndarray \<Rightarrow> 'e py_error + int ndarray" where
  "sum_axis k a = reduce_axis (\<lambda>l. sum_list (map sint l)) k a"

definition majority_fusion ::
  "real \<Rightarrow> real ndarray \<Rightarrow> 'p \<Rightarrow> real ndarray \<times> ('e py_error + 16 word ndarray)" where
  "majority_fusion threshold img probs =
     (let img1 = assign_where (\<lambda>x. x \<ge> threshold) img 1 img;
          img2 = assign_where (\<lambda>x. x < threshold) img1 0 img1;
          probs_combined = astype_int16 img2
      in (img2,
          case sum_axis 4 probs_combined of
            Inl e \<Rightarrow> Inl e
          | Inr probs_sum \<Rightarrow>
              (let probs_result = zeros (shape probs_sum);
                   probs_result1 = assign_where (\<lambda>s. s \<ge> 2) probs_sum 1 probs_result;
                   probs_result2 = assign_where (\<lambda>s. s < 2) probs_sum 0 probs_result1
               in Inr (astype_int16 probs_result2))))"

section \<open>Stacking\<close>

text \<open>
  \<^verbatim>\<open>np.reshape(a, new_shape)\<close> keeps the elements in row-major order and fails
  when the new shape asks for another number of elements.
\<close>

definition reshape :: "'a ndarray \<Rightarrow> nat list \<Rightarrow> 'e py_error + 'a ndarray" where
  "reshape a new_shape =
     (if prod_list new_shape = length (data a)
      then Inr \<lparr>shape = new_shape, data = data a\<rparr>
      else Inl ValueError)"

text \<open>
  \<^verbatim>\<open>np.concatenate(arrs, axis=k)\<close>: there must be an array, the first array
  must have an axis, the axis \<open>k\<close> must exist in it, and all arrays must have its
  number of dimensions and its shape on every other axis.
  Along axis \<open>k\<close> an array is a sequence of blocks of
  \<open>prod_list (drop k shape)\<close> elements, one for each position on the axes before
  \<open>k\<close>; the result puts the blocks of the arrays one after the other.
\<close>

definition block :: "nat \<Rightarrow> nat \<Rightarrow> 'a ndarray \<Rightarrow> 'a list" where
  "block k b a = (let m = prod_list (drop k (shape a)) in take m (drop (b * m) (data a)))"

definition concatenate :: "'a ndarray list \<Rightarrow> nat \<Rightarrow> 'e py_error + 'a ndarray" where
  "concatenate arrs k =
     (case arrs of
        [] \<Rightarrow> Inl ValueError
      | a # rest \<Rightarrow>
          if shape a = [] then Inl ValueError
          else if length (shape a) \<le> k then Inl AxisError
          else if list_all (\<lambda>c. length (shape c) = length (shape a) \<and>
                                 take k (shape c) = take k (shape a) \<and>
                                 drop (Suc k) (shape c) = drop (Suc k) (shape a)) rest
          then Inr \<lparr>shape = (shape a)[k := sum_list (map (\<lambda>c. shape c ! k) arrs)],
                    data = concat (map (\<lambda>b. concat (map (block k b) arrs))
                                       [0..<prod_list (take k (shape a))])\<rparr>
          else Inl ValueError)"

text \<open>
  Lines 55 to 61 of \<^verbatim>\<open>get_seg_single_img_3_directions\<close>:
  \<^verbatim>\<open>
  probs_x, probs_y, probs_z = prob_slices
  new_shape = probs_x.shape + (1,)
  probs_x = np.reshape(probs_x, new_shape)
  probs_y = np.reshape(probs_y, new_shape)
  probs_z = np.reshape(probs_z, new_shape)
  probs_combined = np.concatenate((probs_x, probs_y, probs_z), axis=4)
  \<close>
\<close>

definition stack_directions :: "'a ndarray list \<Rightarrow> 'e py_error + 'a ndarray" where
  "stack_directions prob_slices =
     (case prob_slices of
        [probs_x, probs_y, probs_z] \<Rightarrow>
          (let new_shape = shape probs_x @ [1] in
           case reshape probs_x new_shape of
             Inl e \<Rightarrow> Inl e
           | Inr probs_x' \<Rightarrow>
               (case reshape probs_y new_shape of
                  Inl e \<Rightarrow> Inl e
                | Inr probs_y' \<Rightarrow>
                    (case reshape probs_z new_shape of
                       Inl e \<Rightarrow> Inl e
                     | Inr probs_z' \<Rightarrow> concatenate [probs_x', probs_y', probs_z'] 4)))
      | _ \<Rightarrow> Inl ValueError)"

section \<open>The three-direction runner\<close>

text \<open>
  The configuration object \<^verbatim>\<open>HP\<close>: the runner reads and writes its field
  \<^verbatim>\<open>SLICE_DIRECTION\<close> only; all its other fields are the extension of the
  record.
\<close>

record hp =
  SLICE_DIRECTION :: string

text \<open>
  The data managers and the trainer are not part of this module: they are taken as
  parameters. Each may fail with an error of its own. A collaborator is given the
  configuration as it stands at the call. \<open>get_seg_single_img\<close> stands for
  \<^verbatim>\<open>Trainer(model, dataManagerSingle).get_seg_single_img(HP, probs=..., scale_to_world_shape=...)\<close>.
\<close>

record ('h, 'm, 'd, 'dm, 'y, 'e) collaborators =
  DataManagerSingleSubjectById :: "'h hp_scheme \<Rightarrow> string option \<Rightarrow> 'e + 'dm"
  DataManagerSingleSubjectByFile :: "'h hp_scheme \<Rightarrow> 'd option \<Rightarrow> 'e + 'dm"
  get_seg_single_img :: "'m \<Rightarrow> 'dm \<Rightarrow> 'h hp_scheme \<Rightarrow> bool \<Rightarrow> bool \<Rightarrow> 'e + (real ndarray \<times> 'y)"

text \<open>
  What the runner does to the outside, in program order: each event carries the
  slice direction that the configuration holds at that moment.
\<close>

datatype 'd event =
    Print string
  | ById string "string option"
  | ByFile string "'d option"
  | GetSeg string bool bool

record ('h, 'd, 'y) run_state =
  HP :: "'h hp_scheme"
  trace :: "'d event list"
  prob_slices :: "real ndarray list"
  img_y :: "'y option"

text \<open>Python's truth value of \<^verbatim>\<open>subject\<close>: \<^verbatim>\<open>None\<close> and the empty string are false.\<close>

definition truthy :: "string option \<Rightarrow> bool" where
  "truthy subject = (case subject of None \<Rightarrow> False | Some s \<Rightarrow> s \<noteq> [])"

text \<open>
  Lines 46 to 49:
  \<^verbatim>\<open>
  if subject:
      dataManagerSingle = DataManagerSingleSubjectById(HP, subject=subject)
  else:
      dataManagerSingle = DataManagerSingleSubjectByFile(HP, data=data)
  \<close>
\<close>

definition new_data_manager ::
  "('h, 'm, 'd, 'dm, 'y, 'e) collaborators \<Rightarrow> 'h hp_scheme \<Rightarrow> string option \<Rightarrow> 'd option \<Rightarrow> 'e + 'dm" where
  "new_data_manager collab hp subject data_arg =
     (if truthy subject
      then DataManagerSingleSubjectById collab hp subject
      else DataManagerSingleSubjectByFile collab hp data_arg)"

function string_of_nat :: "nat \<Rightarrow> string" where
  "string_of_nat n =
     (if n < 10 then [''0123456789'' ! n]
      else string_of_nat (n div 10) @ [''0123456789'' ! (n mod 10)])"
  by pat_completeness auto
termination
  by (relation "measure id") auto

text \<open>
  \<^verbatim>\<open>
  def get_seg_single_img_3_directions(HP, model, subject=None, data=None, scale_to_world_shape=True):
      prob_slices = []
      directions = ["x", "y", "z"]
      for idx, direction in enumerate(directions):
          HP.SLICE_DIRECTION = direction
          print("Processing direction ({} of 3)".format(idx+1))
          if subject:
              dataManagerSingle = DataManagerSingleSubjectById(HP, subject=subject)
          else:
              dataManagerSingle = DataManagerSingleSubjectByFile(HP, data=data)
          trainerSingle = Trainer(model, dataManagerSingle)
          img_probs, img_y = trainerSingle.get_seg_single_img(HP, probs=True,
                                 scale_to_world_shape=scale_to_world_shape)
          prob_slices.append(img_probs)
      ...
      return probs_combined, img_y
  \<close>
  The body of the loop for one \<^verbatim>\<open>(idx, direction)\<close> gives the state it leaves and
  the error it raised, if any. The local \<^verbatim>\<open>img_y\<close> is unbound before the first
  pass.
\<close>

definition loop_body ::
  "('h, 'm, 'd, 'dm, 'y, 'e) collaborators \<Rightarrow> 'm \<Rightarrow> string option \<Rightarrow> 'd option \<Rightarrow> bool \<Rightarrow>
   nat \<times> string \<Rightarrow> ('h, 'd, 'y) run_state \<Rightarrow> ('h, 'd, 'y) run_state \<times> 'e py_error option" where
  "loop_body collab model subject data_arg scale_to_world_shape it st =
     (let idx = fst it; direction = snd it;
          st1 = st\<lparr>HP := (HP st)\<lparr>SLICE_DIRECTION := direction\<rparr>\<rparr>;
          st2 = st1\<lparr>trace := trace st1 @
                   [Print (''Processing direction ('' @ string_of_nat (idx + 1) @ '' of 3)'')]\<rparr>;
          st3 = st2\<lparr>trace := trace st2 @
                   [if truthy subject then ById direction subject else ByFile direction data_arg]\<rparr>
      in case new_data_manager collab (HP st3) subject data_arg of
           Inl e \<Rightarrow> (st3, Some (Upstream e))
         | Inr dataManagerSingle \<Rightarrow>
             (let st4 = st3\<lparr>trace := trace st3 @ [GetSeg direction True scale_to_world_shape]\<rparr>
              in case get_seg_single_img collab model dataManagerSingle (HP st4) True scale_to_world_shape of
                   Inl e \<Rightarrow> (st4, Some (Upstream e))
                 | Inr r \<Rightarrow>
                     (st4\<lparr>prob_slices := prob_slices st4 @ [fst r], img_y := Some (snd r)\<rparr>,
                      None)))"

fun for_each ::
  "('i \<Rightarrow> 's \<Rightarrow> 's \<times> 'x option) \<Rightarrow> 'i list \<Rightarrow> 's \<Rightarrow> 's \<times> 'x option" where
  "for_each body [] st = (st, None)"
| "for_each body (i # is) st =
     (case body i st of
        (st', Some e) \<Rightarrow> (st', Some e)
      | (st', None) \<Rightarrow> for_each body is st')"

text \<open>
  \<^verbatim>\<open>get_seg_single_img_3_directions(HP, model, subject, data, scale_to_world_shape)\<close>
  gives the configuration as it is left, the events, and the error raised or the
  pair returned.
\<close>

definition get_seg_single_img_3_directions ::
  "('h, 'm, 'd, 'dm, 'y, 'e) collaborators \<Rightarrow> 'h hp_scheme \<Rightarrow> 'm \<Rightarrow> string option \<Rightarrow> 'd option \<Rightarrow>
   bool \<Rightarrow> 'h hp_scheme \<times> 'd event list \<times> ('e py_error + real ndarray \<times> 'y)" where
  "get_seg_single_img_3_directions collab HP0 model subject data_arg scale_to_world_shape =
     (let directions = [''x'', ''y'', ''z''];
          r = for_each (loop_body collab model subject data_arg scale_to_world_shape)
                (enumerate 0 directions)
                \<lparr>HP = HP0, trace = [], prob_slices = [], img_y = None\<rparr>;
          st = fst r
      in (HP st, trace st,
          case snd r of
            Some e \<Rightarrow> Inl e
          | None \<Rightarrow>
              (case stack_directions (prob_slices st) of
                 Inl e \<Rightarrow> Inl e
               | Inr probs_combined \<Rightarrow>
                   (case img_y st of
                      None \<Rightarrow> Inl UnboundLocalError
                    | Some y \<Rightarrow> Inr (probs_combined, y)))))"

section \<open>Observations\<close>

text \<open>
  What the statements below read off a stacked volume of shape \<open>(X, Y, Z, C, 3)\<close>:
  the arithmetic mean of the three direction values of a voxel and class, and the
  number of directions whose value reaches the threshold.
\<close>

definition voxel_mean :: "real ndarray \<Rightarrow> nat \<Rightarrow> nat \<Rightarrow> nat \<Rightarrow> nat \<Rightarrow> real" where
  "voxel_mean img x y z c =
     (elem_at img [x, y, z, c, 0] + elem_at img [x, y, z, c, 1] + elem_at img [x, y, z, c, 2]) / 3"

definition votes :: "real \<Rightarrow> real ndarray \<Rightarrow> nat \<Rightarrow> nat \<Rightarrow> nat \<Rightarrow> nat \<Rightarrow> nat" where
  "votes t img x y z c = length (filter (\<lambda>d. t \<le> elem_at img [x, y, z, c, d]) [0, 1, 2])"

text \<open>
  The events of a run in which every collaborator call succeeds, and the
  recognisers of the two kinds of event the statements single out.
\<close>

definition dm_event :: "string option \<Rightarrow> 'd option \<Rightarrow> string \<Rightarrow> 'd event" where
  "dm_event subject data_arg direction =
     (if truthy subject then ById direction subject else ByFile direction data_arg)"

definition full_trace :: "string option \<Rightarrow> 'd option \<Rightarrow> bool \<Rightarrow> 'd event list" where
  "full_trace subject data_arg scale =
     [Print ''Processing direction (1 of 3)'', dm_event subject data_arg ''x'', GetSeg ''x'' True scale,
      Print ''Processing direction (2 of 3)'', dm_event subject data_arg ''y'', GetSeg ''y'' True scale,
      Print ''Processing direction (3 of 3)'', dm_event subject data_arg ''z'', GetSeg ''z'' True scale]"

fun is_GetSeg :: "'d event \<Rightarrow> bool" where
  "is_GetSeg (GetSeg direction probs scale) = True"
| "is_GetSeg _ = False"


text \<open>
  Collaborators for concrete runs: the data manager is named after the way it was
  built and the direction it was built for, and the inference returns a one-voxel
  volume and a label that both tell the direction.
\<close>

definition stub_collaborators :: "(unit, unit, real ndarray, string, string, unit) collaborators" where
  "stub_collaborators =
     \<lparr>DataManagerSingleSubjectById = (\<lambda>hp subject. Inr (''id_'' @ SLICE_DIRECTION hp)),
      DataManagerSingleSubjectByFile = (\<lambda>hp d. Inr (''file_'' @ SLICE_DIRECTION hp)),
      get_seg_single_img = (\<lambda>model dm hp probs scale.
         Inr (\<lparr>shape = [1, 1, 1, 1],
                data = [if SLICE_DIRECTION hp = ''x'' then 9 / 10
                        else if SLICE_DIRECTION hp = ''y'' then 1 / 10 else 8 / 10]\<rparr>,
              ''labels_'' @ SLICE_DIRECTION hp))\<rparr>"

declare string_of_nat.simps [simp del]


section \<open>Lists and indices\<close>

lemma concat_nth_uniform:
  "\<lbrakk>list_all (\<lambda>xs. length xs = n) xss; i < length xss; j < n\<rbrakk>
   \<Longrightarrow> concat xss ! (i * n + j) = xss ! i ! j"
proof (induction xss arbitrary: i)
  case Nil
  then show ?case by simp
next
  case (Cons xs xss)
  show ?case
  proof (cases i)
    case 0
    with Cons.prems show ?thesis by (simp add: nth_append)
  next
    case (Suc i')
    with Cons.prems have "concat xss ! (i' * n + j) = xss ! i' ! j"
      by (intro Cons.IH) simp_all
    moreover have "length xs = n" using Cons.prems by simp
    ultimately show ?thesis using Suc by (simp add: nth_append add.assoc)
  qed
qed

lemma length_concat_uniform:
  "list_all (\<lambda>xs. length xs = n) xss \<Longrightarrow> length (concat xss) = length xss * n"
  by (induction xss) simp_all

lemma flat_index4: "flat_index [X, Y, Z, C] [x, y, z, c] = ((x * Y + y) * Z + z) * C + c"
  by (simp add: flat_index_def)

lemma flat_index5:
  "flat_index [X, Y, Z, C, D] [x, y, z, c, d] = flat_index [X, Y, Z, C] [x, y, z, c] * D + d"
  by (simp add: flat_index_def)

lemma mixed_radix_less:
  fixes a b n m :: nat
  assumes "a < n" "b < m"
  shows "a * m + b < n * m"
proof -
  have "a * m + b < a * m + m" using assms by simp
  also have "\<dots> = Suc a * m" by simp
  also have "\<dots> \<le> n * m" using assms by (intro mult_le_mono1) simp
  finally show ?thesis .
qed

lemma flat_index4_less:
  "\<lbrakk>x < X; y < Y; z < Z; c < C\<rbrakk> \<Longrightarrow> flat_index [X, Y, Z, C] [x, y, z, c] < X * Y * Z * C"
  unfolding flat_index4
  by (intro mixed_radix_less)

lemma lanes_last5:
  "lanes 4 [X, Y, Z, C, n] xs =
     map (\<lambda>b. map (\<lambda>j. xs ! (b * n + j)) [0..<n]) [0..<X * Y * Z * C]"
  by (simp add: lanes_def mult.assoc)

lemma take1_drop: "b < length xs \<Longrightarrow> take (Suc 0) (drop b xs) = [xs ! b]"
  by (simp add: take_Suc_conv_app_nth)

section \<open>Masked assignment and reduction along the last axis\<close>

lemma put_mask_self: "put_mask (map p xs) v xs = map (\<lambda>x. if p x then v else x) xs"
  by (induction xs) (simp_all add: put_mask_def)

lemma two_masks:
  "data (assign_where (\<lambda>x. x < t) (assign_where (\<lambda>x. t \<le> x) a 1 a) 0
           (assign_where (\<lambda>x. t \<le> x) a 1 a)) =
   map (\<lambda>x::real. if t \<le> x \<and> t \<le> 1 then 1 else 0) (data a)"
proof -
  have "put_mask (map (\<lambda>x. x < t) (map f xs)) 0 (map f xs) =
        map (\<lambda>x. if f x < t then 0 else f x) xs" for f :: "real \<Rightarrow> real" and xs
    by (induction xs) (simp_all add: put_mask_def)
  then show ?thesis
    by (auto simp: assign_where_def put_mask_self)
qed

lemma two_masks_shape:
  "shape (assign_where (\<lambda>x. x < t) (assign_where (\<lambda>x. t \<le> x) a 1 a) 0
           (assign_where (\<lambda>x. t \<le> x) a 1 a)) = shape a"
  by (simp add: assign_where_def)

lemma mean_axis5:
  "shape img = [X, Y, Z, C, 3] \<Longrightarrow>
   mean_axis 4 img =
     Inr \<lparr>shape = [X, Y, Z, C],
          data = map (\<lambda>b. (data img ! (b * 3) + data img ! (b * 3 + 1) + data img ! (b * 3 + 2)) / 3)
                     [0..<X * Y * Z * C]\<rparr>"
  by (simp add: mean_axis_def reduce_axis_def lanes_last5 numeral_3_eq_3 add.assoc)

lemma astype_bits: "word_of_int (trunc_real (if P then 1 else 0)) = (if P then 1 else 0 :: 16 word)"
  by (simp add: trunc_real_def)

lemma labels_of_mean_fusion:
  assumes "shape img = [X, Y, Z, C, 3]"
  shows "mean_fusion t img False =
     Inr (Labels \<lparr>shape = [X, Y, Z, C],
          data = map (\<lambda>b. if t \<le> (data img ! (b * 3) + data img ! (b * 3 + 1) + data img ! (b * 3 + 2)) / 3 \<and> t \<le> 1
                           then 1 else 0)
                     [0..<X * Y * Z * C]\<rparr>)"
  by (simp add: mean_fusion_def mean_axis5[OF assms] Let_def astype_int16_def two_masks two_masks_shape
        astype_bits o_def)

lemma voxel_mean_flat:
  "shape img = [X, Y, Z, C, 3] \<Longrightarrow>
   voxel_mean img x y z c =
     (data img ! (flat_index [X, Y, Z, C] [x, y, z, c] * 3) +
      data img ! (flat_index [X, Y, Z, C] [x, y, z, c] * 3 + 1) +
      data img ! (flat_index [X, Y, Z, C] [x, y, z, c] * 3 + 2)) / 3"
  by (simp add: voxel_mean_def elem_at_def flat_index5)

section \<open>Stacking three volumes\<close>

lemma stack_directions_data:
  assumes "wf_ndarray a" "wf_ndarray b" "wf_ndarray c"
    and "shape a = [X, Y, Z, C]" "shape b = [X, Y, Z, C]" "shape c = [X, Y, Z, C]"
  shows "stack_directions [a, b, c] =
     Inr \<lparr>shape = [X, Y, Z, C, 3],
          data = concat (map (\<lambda>i. [data a ! i, data b ! i, data c ! i]) [0..<X * Y * Z * C])\<rparr>"
proof -
  let ?N = "X * Y * Z * C"
  let ?new = "shape a @ [1]"
  let ?a = "\<lparr>shape = ?new, data = data a\<rparr>"
  let ?b = "\<lparr>shape = ?new, data = data b\<rparr>"
  let ?c = "\<lparr>shape = ?new, data = data c\<rparr>"
  have len: "length (data a) = ?N" "length (data b) = ?N" "length (data c) = ?N"
    using assms by (simp_all add: wf_ndarray_def)
  have re: "reshape a ?new = Inr ?a" "reshape b ?new = Inr ?b" "reshape c ?new = Inr ?c"
    using len assms(4) by (simp_all add: reshape_def)
  have blocks: "block 4 i \<lparr>shape = ?new, data = xs\<rparr> = [xs ! i]"
    if "i < length xs" for i and xs :: "'a list"
    using that assms(4) by (simp add: block_def take1_drop)
  have rows: "map (\<lambda>i. concat (map (block 4 i) [?a, ?b, ?c])) [0..<?N] =
        map (\<lambda>i. [data a ! i, data b ! i, data c ! i]) [0..<?N]"
  proof (rule map_cong[OF refl])
    fix i assume "i \<in> set [0..<?N]"
    then have "i < length (data a)" "i < length (data b)" "i < length (data c)"
      using len by simp_all
    then show "concat (map (block 4 i) [?a, ?b, ?c]) = [data a ! i, data b ! i, data c ! i]"
      by (simp only: list.map concat.simps blocks append.simps append_Nil2)
  qed
  have "concatenate [?a, ?b, ?c] 4 =
          Inr \<lparr>shape = [X, Y, Z, C, 3],
               data = concat (map (\<lambda>i. concat (map (block 4 i) [?a, ?b, ?c])) [0..<?N])\<rparr>"
    using assms(4) by (simp add: concatenate_def mult.assoc)
  then have cat: "concatenate [?a, ?b, ?c] 4 =
          Inr \<lparr>shape = [X, Y, Z, C, 3],
               data = concat (map (\<lambda>i. [data a ! i, data b ! i, data c ! i]) [0..<?N])\<rparr>"
    by (simp only: rows)
  show ?thesis
    unfolding stack_directions_def
    by (simp only: list.case Let_def re sum.case cat)
qed

lemma stacked_nth:
  assumes "i < n" and "j < 3"
  shows "concat (map (\<lambda>i. [f i, g i, h i]) [0..<n]) ! (i * 3 + j) = [f i, g i, h i] ! j"
proof -
  have "concat (map (\<lambda>i. [f i, g i, h i]) [0..<n]) ! (i * 3 + j) =
        map (\<lambda>i. [f i, g i, h i]) [0..<n] ! i ! j"
    using assms by (intro concat_nth_uniform) (simp_all add: list_all_iff)
  then show ?thesis using assms by simp
qed

lemma length_stacked: "length (concat (map (\<lambda>i. [f i, g i, h i]) [0..<n])) = n * 3"
  by (subst length_concat_uniform[where n = 3]) (simp_all add: list_all_iff)

lemma stack_directions_elem:
  assumes "wf_ndarray a" "wf_ndarray b" "wf_ndarray c"
    and "shape a = [X, Y, Z, C]" "shape b = [X, Y, Z, C]" "shape c = [X, Y, Z, C]"
  shows "\<exists>s. stack_directions [a, b, c] = (Inr s :: 'e py_error + 'a ndarray) \<and>
           shape s = [X, Y, Z, C, 3] \<and> wf_ndarray s \<and>
           (\<forall>i<X. \<forall>j<Y. \<forall>k<Z. \<forall>l<C.
              elem_at s [i, j, k, l, 0] = elem_at a [i, j, k, l] \<and>
              elem_at s [i, j, k, l, 1] = elem_at b [i, j, k, l] \<and>
              elem_at s [i, j, k, l, 2] = elem_at c [i, j, k, l])"
proof -
  let ?N = "X * Y * Z * C"
  let ?s = "\<lparr>shape = [X, Y, Z, C, 3],
          data = concat (map (\<lambda>i. [data a ! i, data b ! i, data c ! i]) [0..<?N])\<rparr>"
  have run: "stack_directions [a, b, c] = (Inr ?s :: 'e py_error + 'a ndarray)"
    by (rule stack_directions_data[OF assms])
  have wf: "wf_ndarray ?s"
    by (simp add: wf_ndarray_def length_stacked mult.assoc)
  have el: "elem_at ?s [i, j, k, l, d] = [elem_at a [i, j, k, l], elem_at b [i, j, k, l], elem_at c [i, j, k, l]] ! d"
    if "i < X" "j < Y" "k < Z" "l < C" "d < 3" for i j k l d
  proof -
    have "flat_index [X, Y, Z, C] [i, j, k, l] < ?N"
      using that by (intro flat_index4_less)
    then show ?thesis
      using that(5) assms(4-6)
      by (simp only: elem_at_def ndarray.select_convs flat_index5 stacked_nth)
  qed
  have "elem_at ?s [i, j, k, l, 0] = elem_at a [i, j, k, l] \<and>
        elem_at ?s [i, j, k, l, 1] = elem_at b [i, j, k, l] \<and>
        elem_at ?s [i, j, k, l, 2] = elem_at c [i, j, k, l]"
    if "i < X" "j < Y" "k < Z" "l < C" for i j k l
    using el[OF that, of 0] el[OF that, of 1] el[OF that, of 2] by simp
  with run wf show ?thesis by (intro exI[of _ ?s]) simp
qed

section \<open>The steps of majority fusion\<close>

lemma caller_array_after_majority_fusion:
  "fst (majority_fusion t img p) =
     img\<lparr>data := map (\<lambda>v. if t \<le> v \<and> t \<le> 1 then 1 else 0) (data img)\<rparr>"
  by (simp add: majority_fusion_def Let_def two_masks[symmetric] assign_where_def)

lemma sum_axis5:
  "shape a = [X, Y, Z, C, 3] \<Longrightarrow>
   sum_axis 4 a =
     Inr \<lparr>shape = [X, Y, Z, C],
          data = map (\<lambda>b. sint (data a ! (b * 3)) + sint (data a ! (b * 3 + 1)) + sint (data a ! (b * 3 + 2)))
                     [0..<X * Y * Z * C]\<rparr>"
  by (simp add: sum_axis_def reduce_axis_def lanes_last5 numeral_3_eq_3 add.assoc)

lemma vote_masks:
  assumes "length cs = n"
  shows "put_mask (map (\<lambda>s. s < 2) cs) 0 (put_mask (map (\<lambda>s. 2 \<le> s) cs) 1 (replicate n (0::real))) =
         map (\<lambda>s::int. if 2 \<le> s then 1 else 0) cs"
  using assms
proof (induction cs arbitrary: n)
  case Nil
  then show ?case by (simp add: put_mask_def)
next
  case (Cons s cs)
  then obtain m where "n = Suc m" "length cs = m" by auto
  with Cons.IH[of m] show ?case by (simp add: put_mask_def)
qed

lemma result_of_majority_fusion:
  assumes "wf_ndarray img" and "shape img = [X, Y, Z, C, 3]"
  shows "snd (majority_fusion t img p) =
     Inr \<lparr>shape = [X, Y, Z, C],
          data = map (\<lambda>b. if 2 \<le> (if t \<le> data img ! (b * 3) \<and> t \<le> 1 then 1 else 0 :: int)
                               + (if t \<le> data img ! (b * 3 + 1) \<and> t \<le> 1 then 1 else 0)
                               + (if t \<le> data img ! (b * 3 + 2) \<and> t \<le> 1 then 1 else 0)
                           then 1 else 0)
                     [0..<X * Y * Z * C]\<rparr>"
proof -
  let ?N = "X * Y * Z * C"
  let ?bit = "\<lambda>v. t \<le> v \<and> t \<le> 1"
  let ?img2 = "assign_where (\<lambda>x. x < t) (assign_where (\<lambda>x. t \<le> x) img 1 img) 0
                 (assign_where (\<lambda>x. t \<le> x) img 1 img)"
  let ?pc = "astype_int16 ?img2"
  let ?cnt = "map (\<lambda>b. (if ?bit (data img ! (b * 3)) then 1 else 0 :: int)
                       + (if ?bit (data img ! (b * 3 + 1)) then 1 else 0)
                       + (if ?bit (data img ! (b * 3 + 2)) then 1 else 0)) [0..<?N]"
  have len: "length (data img) = ?N * 3" using assms by (simp add: wf_ndarray_def)
  have pc_shape: "shape ?pc = [X, Y, Z, C, 3]"
    using assms(2) by (simp add: astype_int16_def two_masks_shape)
  have pc_data: "data ?pc = map (\<lambda>v. if ?bit v then 1 else 0) (data img)"
    by (simp add: astype_int16_def two_masks astype_bits o_def)
  have nth: "sint (data ?pc ! i) = (if ?bit (data img ! i) then 1 else 0)" if "i < ?N * 3" for i
    using that len by (simp add: pc_data)
  have "map (\<lambda>b. sint (data ?pc ! (b * 3)) + sint (data ?pc ! (b * 3 + 1)) + sint (data ?pc ! (b * 3 + 2)))
          [0..<?N] = ?cnt"
  proof (rule map_cong[OF refl])
    fix b assume "b \<in> set [0..<?N]"
    then have "b * 3 < ?N * 3" "b * 3 + 1 < ?N * 3" "b * 3 + 2 < ?N * 3" by simp_all
    then show "sint (data ?pc ! (b * 3)) + sint (data ?pc ! (b * 3 + 1)) + sint (data ?pc ! (b * 3 + 2)) =
       (if ?bit (data img ! (b * 3)) then 1 else 0 :: int)
                       + (if ?bit (data img ! (b * 3 + 1)) then 1 else 0)
                       + (if ?bit (data img ! (b * 3 + 2)) then 1 else 0)"
      by (simp only: nth)
  qed
  then have sum: "sum_axis 4 ?pc = (Inr \<lparr>shape = [X, Y, Z, C], data = ?cnt\<rparr> :: 'e py_error + int ndarray)"
    by (simp only: sum_axis5[OF pc_shape])
  have masks: "put_mask (map (\<lambda>s. s < 2) ?cnt) 0
                 (put_mask (map (\<lambda>s. 2 \<le> s) ?cnt) 1 (replicate ?N (0::real))) =
               map (\<lambda>s::int. if 2 \<le> s then 1 else 0) ?cnt"
    by (rule vote_masks) simp
  have "snd (majority_fusion t img p) =
          (Inr (astype_int16 \<lparr>shape = [X, Y, Z, C], data = map (\<lambda>s::int. if 2 \<le> s then 1 else 0) ?cnt\<rparr>)
            :: 'e py_error + 16 word ndarray)"
    unfolding majority_fusion_def Let_def snd_conv sum sum.case
    by (simp only: assign_where_def zeros_def ndarray.simps prod_list.Cons prod_list.Nil
          mult_1_right mult.assoc[symmetric] masks)
  then show ?thesis
    by (simp add: astype_int16_def astype_bits o_def)
qed

lemma votes_flat:
  "shape img = [X, Y, Z, C, 3] \<Longrightarrow>
   votes t img x y z c =
     length (filter (\<lambda>d. t \<le> data img ! (flat_index [X, Y, Z, C] [x, y, z, c] * 3 + d)) [0, 1, 2])"
  by (simp add: votes_def elem_at_def flat_index5)

lemma put_mask_values: "set (put_mask m v xs) \<subseteq> insert v (set xs)"
  by (induction m xs rule: list_induct2') (auto simp: put_mask_def)

section \<open>Fusion of volumes with values up to 1\<close>

text \<open>
  The threshold above 1 makes a difference only where a value reaches it. On a volume
  whose values are at most 1, as probabilities are, the labels follow the comparison
  with the threshold alone.
\<close>

lemma direction_value_in_data:
  assumes "wf_ndarray img" and "shape img = [X, Y, Z, C, 3]"
    and "x < X" "y < Y" "z < Z" "c < C" "d < 3"
  shows "elem_at img [x, y, z, c, d] \<in> set (data img)"
proof -
  have "flat_index [X, Y, Z, C] [x, y, z, c] < X * Y * Z * C"
    using assms(3-6) by (rule flat_index4_less)
  then have "flat_index [X, Y, Z, C] [x, y, z, c] * 3 + d < X * Y * Z * C * 3"
    using assms(7) by (rule mixed_radix_less)
  then show ?thesis
    using assms(1,2) by (simp add: elem_at_def flat_index5 wf_ndarray_def)
qed

lemma mean_fusion_on_probabilities:
  assumes "wf_ndarray img" and "shape img = [X, Y, Z, C, 3]"
    and "list_all (\<lambda>v. v \<le> 1) (data img)"
    and "mean_fusion t img False = (Inr (Labels r) :: 'e py_error + fused)"
    and "x < X" "y < Y" "z < Z" "c < C"
  shows "(elem_at r [x, y, z, c] = 1) = (t \<le> voxel_mean img x y z c)"
proof -
  have le: "elem_at img [x, y, z, c, d] \<le> 1" if "d < 3" for d
    using direction_value_in_data[OF assms(1,2,5-8) that] assms(3) by (simp add: list_all_iff)
  have "voxel_mean img x y z c \<le> 1"
    using le[of 0] le[of 1] le[of 2] by (simp add: voxel_mean_def)
  moreover have "flat_index [X, Y, Z, C] [x, y, z, c] < X * Y * Z * C"
    using assms(5-8) by (rule flat_index4_less)
  ultimately show ?thesis
    using assms(4) unfolding labels_of_mean_fusion[OF assms(2)]
    by (auto simp: elem_at_def voxel_mean_flat[OF assms(2)] split: if_splits)
qed

lemma majority_fusion_on_probabilities:
  assumes "wf_ndarray img" and "shape img = [X, Y, Z, C, 3]"
    and "list_all (\<lambda>v. v \<le> 1) (data img)"
    and "snd (majority_fusion t img p) = (Inr r :: 'e py_error + 16 word ndarray)"
    and "x < X" "y < Y" "z < Z" "c < C"
  shows "(elem_at r [x, y, z, c] = 1) = (2 \<le> votes t img x y z c)"
proof -
  have le: "elem_at img [x, y, z, c, d] \<le> 1" if "d < 3" for d
    using direction_value_in_data[OF assms(1,2,5-8) that] assms(3) by (simp add: list_all_iff)
  have "t \<le> 1" if "2 \<le> votes t img x y z c"
    using that le[of 0] le[of 1] le[of 2] by (auto simp: votes_def split: if_splits)
  moreover have "flat_index [X, Y, Z, C] [x, y, z, c] < X * Y * Z * C"
    using assms(5-8) by (rule flat_index4_less)
  ultimately show ?thesis
    using assms(4) unfolding result_of_majority_fusion[OF assms(1,2)]
    by (auto simp: elem_at_def votes_flat[OF assms(2)] split: if_splits)
qed

lemma caller_array_on_probabilities:
  assumes "list_all (\<lambda>v. v \<le> 1) (data img)"
  shows "fst (majority_fusion t img p) =
           img\<lparr>data := map (\<lambda>v. if t \<le> v then 1 else 0) (data img)\<rparr>"
proof -
  have "map (\<lambda>v. if t \<le> v \<and> t \<le> 1 then 1 else 0 :: real) (data img) =
        map (\<lambda>v. if t \<le> v then 1 else 0) (data img)"
    using assms by (auto simp: list_all_iff)
  then show ?thesis by (simp add: caller_array_after_majority_fusion)
qed

section \<open>The runs of the three-direction runner\<close>

lemma progress_numbers [simp]:
  "string_of_nat (Suc 0) = ''1''" "string_of_nat (Suc (Suc 0)) = ''2''"
  "string_of_nat (Suc (Suc (Suc 0))) = ''3''"
  by (simp_all add: string_of_nat.simps[of "Suc 0"] string_of_nat.simps[of "Suc (Suc 0)"]
        string_of_nat.simps[of "Suc (Suc (Suc 0))"])

lemma loop_success:
  assumes "new_data_manager collab (HP0\<lparr>SLICE_DIRECTION := ''x''\<rparr>) subject data_arg = Inr dmx"
    and "get_seg_single_img collab model dmx (HP0\<lparr>SLICE_DIRECTION := ''x''\<rparr>) True scale = Inr (px, yx)"
    and "new_data_manager collab (HP0\<lparr>SLICE_DIRECTION := ''y''\<rparr>) subject data_arg = Inr dmy"
    and "get_seg_single_img collab model dmy (HP0\<lparr>SLICE_DIRECTION := ''y''\<rparr>) True scale = Inr (py, yy)"
    and "new_data_manager collab (HP0\<lparr>SLICE_DIRECTION := ''z''\<rparr>) subject data_arg = Inr dmz"
    and "get_seg_single_img collab model dmz (HP0\<lparr>SLICE_DIRECTION := ''z''\<rparr>) True scale = Inr (pz, yz)"
  shows "for_each (loop_body collab model subject data_arg scale) (enumerate 0 [''x'', ''y'', ''z''])
           \<lparr>HP = HP0, trace = [], prob_slices = [], img_y = None\<rparr> =
         (\<lparr>HP = HP0\<lparr>SLICE_DIRECTION := ''z''\<rparr>, trace = full_trace subject data_arg scale,
           prob_slices = [px, py, pz], img_y = Some yz\<rparr>, None)"
  using assms
  by (simp add: loop_body_def Let_def enumerate_simps full_trace_def dm_event_def)

lemma run_success:
  assumes "new_data_manager collab (HP0\<lparr>SLICE_DIRECTION := ''x''\<rparr>) subject data_arg = Inr dmx"
    and "get_seg_single_img collab model dmx (HP0\<lparr>SLICE_DIRECTION := ''x''\<rparr>) True scale = Inr (px, yx)"
    and "new_data_manager collab (HP0\<lparr>SLICE_DIRECTION := ''y''\<rparr>) subject data_arg = Inr dmy"
    and "get_seg_single_img collab model dmy (HP0\<lparr>SLICE_DIRECTION := ''y''\<rparr>) True scale = Inr (py, yy)"
    and "new_data_manager collab (HP0\<lparr>SLICE_DIRECTION := ''z''\<rparr>) subject data_arg = Inr dmz"
    and "get_seg_single_img collab model dmz (HP0\<lparr>SLICE_DIRECTION := ''z''\<rparr>) True scale = Inr (pz, yz)"
  shows "get_seg_single_img_3_directions collab HP0 model subject data_arg scale =
           (HP0\<lparr>SLICE_DIRECTION := ''z''\<rparr>, full_trace subject data_arg scale,
            case stack_directions [px, py, pz] of Inl e \<Rightarrow> Inl e | Inr s \<Rightarrow> Inr (s, yz))"
  unfolding get_seg_single_img_3_directions_def Let_def loop_success[OF assms]
  by (simp split: sum.splits)

lemma run_inversion:
  fixes collab :: "('h, 'm, 'd, 'dm, 'y, 'e) collaborators"
  assumes "get_seg_single_img_3_directions collab HP0 model subject data_arg scale = (HP', tr, Inr (s, y))"
  shows "\<exists>dmx px yx dmy py yy dmz pz.
      new_data_manager collab (HP0\<lparr>SLICE_DIRECTION := ''x''\<rparr>) subject data_arg = Inr dmx \<and>
      get_seg_single_img collab model dmx (HP0\<lparr>SLICE_DIRECTION := ''x''\<rparr>) True scale = Inr (px, yx) \<and>
      new_data_manager collab (HP0\<lparr>SLICE_DIRECTION := ''y''\<rparr>) subject data_arg = Inr dmy \<and>
      get_seg_single_img collab model dmy (HP0\<lparr>SLICE_DIRECTION := ''y''\<rparr>) True scale = Inr (py, yy) \<and>
      new_data_manager collab (HP0\<lparr>SLICE_DIRECTION := ''z''\<rparr>) subject data_arg = Inr dmz \<and>
      get_seg_single_img collab model dmz (HP0\<lparr>SLICE_DIRECTION := ''z''\<rparr>) True scale = Inr (pz, y) \<and>
      stack_directions [px, py, pz] = (Inr s :: 'e py_error + real ndarray) \<and>
      HP' = HP0\<lparr>SLICE_DIRECTION := ''z''\<rparr> \<and> tr = full_trace subject data_arg scale"
proof (cases "new_data_manager collab (HP0\<lparr>SLICE_DIRECTION := ''x''\<rparr>) subject data_arg")
  case (Inl e)
  with assms show ?thesis
    by (simp add: get_seg_single_img_3_directions_def loop_body_def Let_def enumerate_simps)
next
  case dmx: (Inr dmx)
  show ?thesis
  proof (cases "get_seg_single_img collab model dmx (HP0\<lparr>SLICE_DIRECTION := ''x''\<rparr>) True scale")
    case (Inl e)
    with assms dmx show ?thesis
      by (simp add: get_seg_single_img_3_directions_def loop_body_def Let_def enumerate_simps)
  next
    case rx: (Inr rx)
    show ?thesis
    proof (cases "new_data_manager collab (HP0\<lparr>SLICE_DIRECTION := ''y''\<rparr>) subject data_arg")
      case (Inl e)
      with assms dmx rx show ?thesis
        by (simp add: get_seg_single_img_3_directions_def loop_body_def Let_def enumerate_simps)
    next
      case dmy: (Inr dmy)
      show ?thesis
      proof (cases "get_seg_single_img collab model dmy (HP0\<lparr>SLICE_DIRECTION := ''y''\<rparr>) True scale")
        case (Inl e)
        with assms dmx rx dmy show ?thesis
          by (simp add: get_seg_single_img_3_directions_def loop_body_def Let_def enumerate_simps)
      next
        case ry: (Inr ry)
        show ?thesis
        proof (cases "new_data_manager collab (HP0\<lparr>SLICE_DIRECTION := ''z''\<rparr>) subject data_arg")
          case (Inl e)
          with assms dmx rx dmy ry show ?thesis
            by (simp add: get_seg_single_img_3_directions_def loop_body_def Let_def enumerate_simps)
        next
          case dmz: (Inr dmz)
          show ?thesis
          proof (cases "get_seg_single_img collab model dmz (HP0\<lparr>SLICE_DIRECTION := ''z''\<rparr>) True scale")
            case (Inl e)
            with assms dmx rx dmy ry dmz show ?thesis
              by (simp add: get_seg_single_img_3_directions_def loop_body_def Let_def enumerate_simps)
          next
            case rz: (Inr rz)
            obtain px yx py yy pz yz where r: "rx = (px, yx)" "ry = (py, yy)" "rz = (pz, yz)"
              by (metis surj_pair)
            have "get_seg_single_img_3_directions collab HP0 model subject data_arg scale =
                   (HP0\<lparr>SLICE_DIRECTION := ''z''\<rparr>, full_trace subject data_arg scale,
                    case stack_directions [px, py, pz] of
                      Inl e \<Rightarrow> Inl e | Inr s \<Rightarrow> Inr (s, yz))"
              using dmx rx dmy ry dmz rz unfolding r by (rule run_success)
            with assms have "HP' = HP0\<lparr>SLICE_DIRECTION := ''z''\<rparr>"
              "tr = full_trace subject data_arg scale"
              "stack_directions [px, py, pz] = (Inr s :: 'e py_error + real ndarray)" "yz = y"
              by (auto split: sum.splits)
            with dmx rx dmy ry dmz rz r show ?thesis
              by blast
          qed
        qed
      qed
    qed
  qed
qed




section \<open>Evaluation of concrete runs\<close>


lemmas run_defs = get_seg_single_img_3_directions_def loop_body_def new_data_manager_def truthy_def
  stub_collaborators_def Let_def enumerate_simps stack_directions_def reshape_def concatenate_def block_def

lemma stub_run:
  "get_seg_single_img_3_directions stub_collaborators \<lparr>SLICE_DIRECTION = ''y''\<rparr> () (Some ''s01'')
      (d :: real ndarray option) True =
     (\<lparr>SLICE_DIRECTION = ''z''\<rparr>,
      [Print ''Processing direction (1 of 3)'', ById ''x'' (Some ''s01''), GetSeg ''x'' True True,
       Print ''Processing direction (2 of 3)'', ById ''y'' (Some ''s01''), GetSeg ''y'' True True,
       Print ''Processing direction (3 of 3)'', ById ''z'' (Some ''s01''), GetSeg ''z'' True True],
      Inr (\<lparr>shape = [1, 1, 1, 1, 3], data = [9 / 10, 1 / 10, 8 / 10]\<rparr>, ''labels_z''))"
  by (simp add: run_defs)

section \<open>The claims\<close>

subsection \<open>C1\<close>




subsection \<open>C2\<close>




subsection \<open>C3\<close>

text \<open>
  Claim C3. When \<open>get_seg_single_img_3_directions\<close> returns, it has called the
  inference collaborator exactly three times, with the configuration set to the
  directions x, y and z in this order, and the reference labels it returns are those
  that the third call, for z, returned.
\<close>

theorem three_directions_in_order:
  fixes collab :: "('h, 'm, 'd, 'dm, 'y, 'e) collaborators"
  assumes "get_seg_single_img_3_directions collab HP0 model subject data_arg scale = (HP', tr, Inr (s, y))"
  shows "filter is_GetSeg tr = [GetSeg ''x'' True scale, GetSeg ''y'' True scale, GetSeg ''z'' True scale] \<and>
         (\<exists>dmz pz. new_data_manager collab (HP0\<lparr>SLICE_DIRECTION := ''z''\<rparr>) subject data_arg = Inr dmz \<and>
            get_seg_single_img collab model dmz (HP0\<lparr>SLICE_DIRECTION := ''z''\<rparr>) True scale = Inr (pz, y))"
proof -
  from run_inversion[OF assms] obtain dmz pz where
    "new_data_manager collab (HP0\<lparr>SLICE_DIRECTION := ''z''\<rparr>) subject data_arg = Inr dmz"
    "get_seg_single_img collab model dmz (HP0\<lparr>SLICE_DIRECTION := ''z''\<rparr>) True scale = Inr (pz, y)"
    "tr = full_trace subject data_arg scale"
    by blast
  then show ?thesis
    by (auto simp: full_trace_def dm_event_def)
qed

text \<open>
  A run with collaborators whose labels tell the direction: the labels returned are
  those of z.
\<close>

theorem three_directions_in_order_witness:
  "get_seg_single_img_3_directions stub_collaborators \<lparr>SLICE_DIRECTION = ''y''\<rparr> () (Some ''s01'')
      (None :: real ndarray option) True =
     (\<lparr>SLICE_DIRECTION = ''z''\<rparr>,
      [Print ''Processing direction (1 of 3)'', ById ''x'' (Some ''s01''), GetSeg ''x'' True True,
       Print ''Processing direction (2 of 3)'', ById ''y'' (Some ''s01''), GetSeg ''y'' True True,
       Print ''Processing direction (3 of 3)'', ById ''z'' (Some ''s01''), GetSeg ''z'' True True],
      Inr (\<lparr>shape = [1, 1, 1, 1, 3], data = [9 / 10, 1 / 10, 8 / 10]\<rparr>, ''labels_z'')) \<and>
   get_seg_single_img stub_collaborators () ''id_z'' \<lparr>SLICE_DIRECTION = ''z''\<rparr> True True =
     Inr (\<lparr>shape = [1, 1, 1, 1], data = [8 / 10]\<rparr>, ''labels_z'')"
proof -
  note run = stub_run[of None]
  from three_directions_in_order[OF run]
  obtain dmz pz where
    "new_data_manager stub_collaborators (\<lparr>SLICE_DIRECTION = ''y''\<rparr>\<lparr>SLICE_DIRECTION := ''z''\<rparr>)
        (Some ''s01'') (None :: real ndarray option) = Inr dmz"
    "get_seg_single_img stub_collaborators () dmz (\<lparr>SLICE_DIRECTION = ''y''\<rparr>\<lparr>SLICE_DIRECTION := ''z''\<rparr>)
        True True = Inr (pz, ''labels_z'')"
    by blast
  then show ?thesis
    using run by (auto simp: new_data_manager_def truthy_def stub_collaborators_def)
qed

subsection \<open>C4\<close>

text \<open>
  Claim C4. When the three inference calls return volumes of the same shape
  \<open>(X, Y, Z, C)\<close>, \<open>get_seg_single_img_3_directions\<close> returns a volume of shape
  \<open>(X, Y, Z, C, 3)\<close> whose last axis holds, at every voxel and class, the value of the
  x volume at position 0, of the y volume at position 1 and of the z volume at
  position 2.
\<close>

theorem stacked_volume_shape_and_order:
  fixes collab :: "('h, 'm, 'd, 'dm, 'y, 'e) collaborators"
  assumes "new_data_manager collab (HP0\<lparr>SLICE_DIRECTION := ''x''\<rparr>) subject data_arg = Inr dmx"
    and "get_seg_single_img collab model dmx (HP0\<lparr>SLICE_DIRECTION := ''x''\<rparr>) True scale = Inr (px, yx)"
    and "new_data_manager collab (HP0\<lparr>SLICE_DIRECTION := ''y''\<rparr>) subject data_arg = Inr dmy"
    and "get_seg_single_img collab model dmy (HP0\<lparr>SLICE_DIRECTION := ''y''\<rparr>) True scale = Inr (py, yy)"
    and "new_data_manager collab (HP0\<lparr>SLICE_DIRECTION := ''z''\<rparr>) subject data_arg = Inr dmz"
    and "get_seg_single_img collab model dmz (HP0\<lparr>SLICE_DIRECTION := ''z''\<rparr>) True scale = Inr (pz, yz)"
    and "wf_ndarray px" "wf_ndarray py" "wf_ndarray pz"
    and "shape px = [X, Y, Z, C]" "shape py = [X, Y, Z, C]" "shape pz = [X, Y, Z, C]"
  shows "\<exists>HP' tr s. get_seg_single_img_3_directions collab HP0 model subject data_arg scale =
                      (HP', tr, Inr (s, yz)) \<and>
           shape s = [X, Y, Z, C, 3] \<and> wf_ndarray s \<and>
           (\<forall>i<X. \<forall>j<Y. \<forall>k<Z. \<forall>l<C.
              elem_at s [i, j, k, l, 0] = elem_at px [i, j, k, l] \<and>
              elem_at s [i, j, k, l, 1] = elem_at py [i, j, k, l] \<and>
              elem_at s [i, j, k, l, 2] = elem_at pz [i, j, k, l])"
proof -
  from stack_directions_elem[OF assms(7-12)] obtain s where
    s: "stack_directions [px, py, pz] = (Inr s :: 'e py_error + real ndarray)"
    and props: "shape s = [X, Y, Z, C, 3]" "wf_ndarray s"
      "\<forall>i<X. \<forall>j<Y. \<forall>k<Z. \<forall>l<C.
              elem_at s [i, j, k, l, 0] = elem_at px [i, j, k, l] \<and>
              elem_at s [i, j, k, l, 1] = elem_at py [i, j, k, l] \<and>
              elem_at s [i, j, k, l, 2] = elem_at pz [i, j, k, l]"
    by blast
  have "get_seg_single_img_3_directions collab HP0 model subject data_arg scale =
          (HP0\<lparr>SLICE_DIRECTION := ''z''\<rparr>, full_trace subject data_arg scale, Inr (s, yz))"
    using run_success[OF assms(1-6)] s by simp
  with props show ?thesis by blast
qed

text \<open>A run with the one-voxel volumes 0.9 for x, 0.1 for y and 0.8 for z.\<close>

theorem stacked_volume_shape_and_order_witness:
  "get_seg_single_img_3_directions stub_collaborators \<lparr>SLICE_DIRECTION = ''y''\<rparr> () (Some ''s01'')
      (None :: real ndarray option) True =
     (\<lparr>SLICE_DIRECTION = ''z''\<rparr>,
      [Print ''Processing direction (1 of 3)'', ById ''x'' (Some ''s01''), GetSeg ''x'' True True,
       Print ''Processing direction (2 of 3)'', ById ''y'' (Some ''s01''), GetSeg ''y'' True True,
       Print ''Processing direction (3 of 3)'', ById ''z'' (Some ''s01''), GetSeg ''z'' True True],
      Inr (\<lparr>shape = [1, 1, 1, 1, 3], data = [9 / 10, 1 / 10, 8 / 10]\<rparr>, ''labels_z'')) \<and>
   elem_at \<lparr>shape = [1, 1, 1, 1, 3], data = [9 / 10, 1 / 10, 8 / 10 :: real]\<rparr> [0, 0, 0, 0, 0] = 9 / 10 \<and>
   elem_at \<lparr>shape = [1, 1, 1, 1, 3], data = [9 / 10, 1 / 10, 8 / 10 :: real]\<rparr> [0, 0, 0, 0, 1] = 1 / 10 \<and>
   elem_at \<lparr>shape = [1, 1, 1, 1, 3], data = [9 / 10, 1 / 10, 8 / 10 :: real]\<rparr> [0, 0, 0, 0, 2] = 8 / 10"
proof -
  let ?HP = "\<lparr>SLICE_DIRECTION = ''y''\<rparr>"
  let ?vol = "\<lambda>v :: real. \<lparr>shape = [1, 1, 1, 1], data = [v]\<rparr>"
  have calls:
    "new_data_manager stub_collaborators (?HP\<lparr>SLICE_DIRECTION := ''x''\<rparr>) (Some ''s01'') (None :: real ndarray option) = Inr ''id_x''"
    "get_seg_single_img stub_collaborators () ''id_x'' (?HP\<lparr>SLICE_DIRECTION := ''x''\<rparr>) True True = Inr (?vol (9 / 10), ''labels_x'')"
    "new_data_manager stub_collaborators (?HP\<lparr>SLICE_DIRECTION := ''y''\<rparr>) (Some ''s01'') (None :: real ndarray option) = Inr ''id_y''"
    "get_seg_single_img stub_collaborators () ''id_y'' (?HP\<lparr>SLICE_DIRECTION := ''y''\<rparr>) True True = Inr (?vol (1 / 10), ''labels_y'')"
    "new_data_manager stub_collaborators (?HP\<lparr>SLICE_DIRECTION := ''z''\<rparr>) (Some ''s01'') (None :: real ndarray option) = Inr ''id_z''"
    "get_seg_single_img stub_collaborators () ''id_z'' (?HP\<lparr>SLICE_DIRECTION := ''z''\<rparr>) True True = Inr (?vol (8 / 10), ''labels_z'')"
    by (simp_all add: new_data_manager_def truthy_def stub_collaborators_def)
  have wf: "wf_ndarray (?vol (9 / 10))" "wf_ndarray (?vol (1 / 10))" "wf_ndarray (?vol (8 / 10))"
    by (simp_all add: wf_ndarray_def)
  have sh: "shape (?vol (9 / 10)) = [1, 1, 1, 1]" "shape (?vol (1 / 10)) = [1, 1, 1, 1]"
    "shape (?vol (8 / 10)) = [1, 1, 1, 1]"
    by simp_all
  from stacked_volume_shape_and_order[OF calls wf sh]
  obtain HP' tr s where
    "get_seg_single_img_3_directions stub_collaborators ?HP () (Some ''s01'') (None :: real ndarray option) True =
       (HP', tr, Inr (s, ''labels_z''))"
    and "elem_at s [0, 0, 0, 0, 0] = elem_at (?vol (9 / 10)) [0, 0, 0, 0]"
    and "elem_at s [0, 0, 0, 0, 1] = elem_at (?vol (1 / 10)) [0, 0, 0, 0]"
    and "elem_at s [0, 0, 0, 0, 2] = elem_at (?vol (8 / 10)) [0, 0, 0, 0]"
    by auto
  then show ?thesis
    using stub_run[of None] by (simp add: elem_at_def flat_index_def)
qed

subsection \<open>C5\<close>

text \<open>
  Claim C5 equates a floating-point result with the input it was computed from:
  for a volume \<open>p\<close> with four axes, stacking \<open>p\<close> with itself three times along a new
  last axis and applying \<open>mean_fusion\<close> with \<open>probs = True\<close> is to return \<open>p\<close>. Whether
  the quotient of \<open>p + p + p\<close> by 3 is \<open>p\<close> again is decided by the rounding of the
  two operations, which is outside this model. In the exact arithmetic of the model
  the equation holds under any threshold, and the value returned is the mean along
  the last axis itself.
\<close>

lemma identical_directions_exact_arithmetic:
  assumes "wf_ndarray p" and "length (shape p) = 4"
  shows "\<exists>s. stack_directions [p, p, p] = Inr s \<and> shape s = shape p @ [3] \<and>
             mean_axis 4 s = (Inr p :: 'e py_error + real ndarray) \<and>
             mean_fusion t s True = (Inr (Probabilities p) :: 'e py_error + fused)"
proof -
  from assms(2) obtain X Y Z C where sh: "shape p = [X, Y, Z, C]"
    by (auto simp: length_Suc_conv eval_nat_numeral)
  let ?N = "X * Y * Z * C"
  let ?s = "\<lparr>shape = [X, Y, Z, C, 3],
             data = concat (map (\<lambda>i. [data p ! i, data p ! i, data p ! i]) [0..<?N])\<rparr>"
  have len: "length (data p) = ?N" using assms(1) sh by (simp add: wf_ndarray_def)
  have stack: "stack_directions [p, p, p] = Inr ?s"
    using assms(1) sh by (intro stack_directions_data)
  have "map (\<lambda>b. (data ?s ! (b * 3) + data ?s ! (b * 3 + 1) + data ?s ! (b * 3 + 2)) / 3) [0..<?N] =
        map (\<lambda>b. data p ! b) [0..<?N]"
  proof (rule map_cong)
    fix b assume "b \<in> set [0..<?N]"
    then have b: "b < ?N" by simp
    have "data ?s ! (b * 3 + 0) = data p ! b" "data ?s ! (b * 3 + 1) = data p ! b"
         "data ?s ! (b * 3 + 2) = data p ! b"
      using b stacked_nth[of b ?N 0 "\<lambda>i. data p ! i" "\<lambda>i. data p ! i" "\<lambda>i. data p ! i"]
        stacked_nth[of b ?N 1 "\<lambda>i. data p ! i" "\<lambda>i. data p ! i" "\<lambda>i. data p ! i"]
        stacked_nth[of b ?N 2 "\<lambda>i. data p ! i" "\<lambda>i. data p ! i" "\<lambda>i. data p ! i"]
      by simp_all
    then show "(data ?s ! (b * 3) + data ?s ! (b * 3 + 1) + data ?s ! (b * 3 + 2)) / 3 = data p ! b"
      by simp
  qed simp
  also have "\<dots> = data p" using len by (metis map_nth)
  finally have "mean_axis 4 ?s = (Inr \<lparr>shape = [X, Y, Z, C], data = data p\<rparr> :: 'e py_error + real ndarray)"
    by (simp add: mean_axis5[of ?s X Y Z C])
  then have mean: "mean_axis 4 ?s = (Inr p :: 'e py_error + real ndarray)"
    using sh by simp
  then have "mean_fusion t ?s True = (Inr (Probabilities p) :: 'e py_error + fused)"
    by (simp add: mean_fusion_def)
  with stack sh mean show ?thesis by (intro exI[of _ ?s]) simp
qed

subsection \<open>C6\<close>

text \<open>
  Claim C6. The array left in place and the result of \<open>majority_fusion\<close> are the same
  for any two values of its third parameter, and a result holds only 0 and 1.
\<close>

theorem majority_fusion_ignores_probs:
  "(majority_fusion t img p :: real ndarray \<times> ('e py_error + 16 word ndarray)) = majority_fusion t img q \<and>
   (case snd (majority_fusion t img p :: real ndarray \<times> ('e py_error + 16 word ndarray)) of
      Inl e \<Rightarrow> True
    | Inr r \<Rightarrow> list_all (\<lambda>v. v = 0 \<or> v = 1) (data r))"
proof -
  have "set (put_mask m2 0 (put_mask m1 1 (replicate n (0::real)))) \<subseteq> {0, 1}" for m1 m2 n
    using put_mask_values[of m2 0 "put_mask m1 1 (replicate n (0::real))"]
      put_mask_values[of m1 1 "replicate n (0::real)"] by auto
  then have "list_all (\<lambda>v. v = 0 \<or> v = 1)
               (map (\<lambda>x. word_of_int (trunc_real x) :: 16 word)
                  (put_mask m2 0 (put_mask m1 1 (replicate n (0::real)))))" for m1 m2 n
    by (fastforce simp: list_all_iff trunc_real_def)
  then show ?thesis
    by (simp add: majority_fusion_def Let_def astype_int16_def assign_where_def zeros_def
          split: sum.splits)
qed

text \<open>The third parameter set to \<open>True\<close> and to \<open>False\<close>.\<close>

theorem majority_fusion_ignores_probs_witness:
  "(majority_fusion (1 / 2) \<lparr>shape = [1, 1, 1, 1, 3], data = [9 / 10, 1 / 10, 9 / 10]\<rparr> True
      :: real ndarray \<times> (unit py_error + 16 word ndarray)) =
   majority_fusion (1 / 2) \<lparr>shape = [1, 1, 1, 1, 3], data = [9 / 10, 1 / 10, 9 / 10]\<rparr> False"
  by (rule majority_fusion_ignores_probs[THEN conjunct1])

subsection \<open>C7\<close>

text \<open>
  Claim C7. When \<open>get_seg_single_img_3_directions\<close> returns, the slice direction of
  the configuration is z and every other field of the configuration is as it was at
  the call.
\<close>

theorem configuration_left_at_z:
  fixes collab :: "('h, 'm, 'd, 'dm, 'y, 'e) collaborators"
  assumes "get_seg_single_img_3_directions collab HP0 model subject data_arg scale = (HP', tr, Inr (s, y))"
  shows "SLICE_DIRECTION HP' = ''z'' \<and> hp.more HP' = hp.more HP0"
  using run_inversion[OF assms] by auto

text \<open>A run by data array, started with the slice direction y.\<close>

theorem configuration_left_at_z_witness:
  "get_seg_single_img_3_directions stub_collaborators \<lparr>SLICE_DIRECTION = ''y''\<rparr> () None
      (Some \<lparr>shape = [1, 1, 1], data = [5]\<rparr>) False =
     (\<lparr>SLICE_DIRECTION = ''z''\<rparr>,
      [Print ''Processing direction (1 of 3)'', ByFile ''x'' (Some \<lparr>shape = [1, 1, 1], data = [5]\<rparr>),
       GetSeg ''x'' True False,
       Print ''Processing direction (2 of 3)'', ByFile ''y'' (Some \<lparr>shape = [1, 1, 1], data = [5]\<rparr>),
       GetSeg ''y'' True False,
       Print ''Processing direction (3 of 3)'', ByFile ''z'' (Some \<lparr>shape = [1, 1, 1], data = [5]\<rparr>),
       GetSeg ''z'' True False],
      Inr (\<lparr>shape = [1, 1, 1, 1, 3], data = [9 / 10, 1 / 10, 8 / 10]\<rparr>, ''labels_z'')) \<and>
   SLICE_DIRECTION \<lparr>SLICE_DIRECTION = ''z''\<rparr> = ''z''"
proof -
  have run: "get_seg_single_img_3_directions stub_collaborators \<lparr>SLICE_DIRECTION = ''y''\<rparr> () None
      (Some \<lparr>shape = [1, 1, 1], data = [5]\<rparr>) False =
     (\<lparr>SLICE_DIRECTION = ''z''\<rparr>,
      [Print ''Processing direction (1 of 3)'', ByFile ''x'' (Some \<lparr>shape = [1, 1, 1], data = [5]\<rparr>),
       GetSeg ''x'' True False,
       Print ''Processing direction (2 of 3)'', ByFile ''y'' (Some \<lparr>shape = [1, 1, 1], data = [5]\<rparr>),
       GetSeg ''y'' True False,
       Print ''Processing direction (3 of 3)'', ByFile ''z'' (Some \<lparr>shape = [1, 1, 1], data = [5]\<rparr>),
       GetSeg ''z'' True False],
      Inr (\<lparr>shape = [1, 1, 1, 1, 3], data = [9 / 10, 1 / 10, 8 / 10]\<rparr>, ''labels_z''))"
    by (simp add: run_defs)
  from configuration_left_at_z[OF run] run show ?thesis by simp
qed

subsection \<open>C8\<close>



subsection \<open>C9\<close>



subsection \<open>C10\<close>



end
